theory Spec2Isabelle
  imports Main
begin

section \<open>Python values used by the scraper\<close>

text \<open>
  The embedding follows \<^verbatim>\<open>golden_pages_scraper.py\<close>. A Python \<^verbatim>\<open>str\<close> is a
  \<^typ>\<open>string\<close> whose characters are read as code points below 256. A Python
  \<^verbatim>\<open>dict\<close> with string keys and values is an association list in insertion order
  (the order \<^verbatim>\<open>items()\<close> yields). Every exception the modelled code can raise is a
  value of \<open>py_error\<close>; a function that may raise returns \<open>py_error + 'a\<close>. Console
  output (\<^verbatim>\<open>print\<close>) and delays (\<^verbatim>\<open>time.sleep\<close>) are not part of the model.
\<close>

datatype py_error = IndexError | KeyError | TypeError

type_synonym pydict = "(string \<times> string) list"

text \<open>\<^verbatim>\<open>d[k]\<close>: the value stored under the key, KeyError when the key is absent.\<close>

definition dict_get :: "pydict \<Rightarrow> string \<Rightarrow> py_error + string" where
  "dict_get d k = (case map_of d k of None \<Rightarrow> Inl KeyError | Some v \<Rightarrow> Inr v)"

text \<open>\<^verbatim>\<open>d[k] = v\<close>: an existing key keeps its position, a new key goes last.\<close>

fun dict_set :: "pydict \<Rightarrow> string \<Rightarrow> string \<Rightarrow> pydict" where
  "dict_set [] k v = [(k, v)]"
| "dict_set ((k', v') # d) k v = (if k' = k then (k, v) # d else (k', v') # dict_set d k v)"

text \<open>\<^verbatim>\<open>xs[i]\<close> for a non-negative index: IndexError out of range.\<close>

definition py_index :: "'a list \<Rightarrow> nat \<Rightarrow> py_error + 'a" where
  "py_index xs i = (if i < length xs then Inr (xs ! i) else Inl IndexError)"

subsection \<open>String methods\<close>

text \<open>\<^verbatim>\<open>str.isspace\<close> on one character, for the code points below 256.\<close>

definition is_space :: "char \<Rightarrow> bool" where
  "is_space c = (of_char c \<in> {9, 10, 11, 12, 13, 28, 29, 30, 31, 32, 133, 160 :: nat})"

text \<open>\<^verbatim>\<open>s.strip()\<close>\<close>

definition py_strip :: "string \<Rightarrow> string" where
  "py_strip s = rev (dropWhile is_space (rev (dropWhile is_space s)))"

text \<open>\<^verbatim>\<open>s.split(c, 1)\<close> for a one-character separator: at most one split, at the first
  occurrence.\<close>

definition py_split1 :: "char \<Rightarrow> string \<Rightarrow> string list" where
  "py_split1 c s =
     (if c \<in> set s then [takeWhile (\<lambda>x. x \<noteq> c) s, tl (dropWhile (\<lambda>x. x \<noteq> c) s)] else [s])"

text \<open>\<^verbatim>\<open>s.replace(old, new)\<close>: every non-overlapping occurrence, from the left.\<close>

function py_replace :: "string \<Rightarrow> string \<Rightarrow> string \<Rightarrow> string" where
  "py_replace old new [] = (if old = [] then new else [])"
| "py_replace old new (c # cs) =
     (if old = [] then new @ c # py_replace old new cs
      else if take (length old) (c # cs) = old
           then new @ py_replace old new (drop (length old) (c # cs))
           else c # py_replace old new cs)"
  by pat_completeness auto
termination
  by (relation "measure (\<lambda>(old, new, s). length s)") auto

section \<open>Parsed documents\<close>

text \<open>
  A document parsed by BeautifulSoup is a tree. A \<open>Tag\<close> has its name, the list of
  its classes (the \<^verbatim>\<open>class\<close> attribute split on whitespace, empty when there is none),
  its single-valued attributes and its children. \<open>Text\<close> is a text node; \<open>Comment\<close>
  stands for the string nodes that \<^verbatim>\<open>.text\<close> leaves out.
\<close>

datatype node =
    Tag (tag_name: string) (classes: "string list") (attrs: "(string \<times> string) list")
        (contents: "node list")
  | Text string
  | Comment string

text \<open>
  An element handle is a node together with the siblings that follow it in its parent:
  that is what \<^verbatim>\<open>find_next_sibling\<close> needs to know about the node's place.
\<close>

type_synonym element = "node \<times> node list"

text \<open>All descendants of a node, in document order, each with its following siblings.\<close>

fun descendants :: "node \<Rightarrow> element list"
  and descendants_of_list :: "node list \<Rightarrow> element list" where
  "descendants (Tag n cs as ch) = descendants_of_list ch"
| "descendants (Text s) = []"
| "descendants (Comment s) = []"
| "descendants_of_list [] = []"
| "descendants_of_list (x # xs) = (x, xs) # descendants x @ descendants_of_list xs"

text \<open>\<^verbatim>\<open>' '.join(cs)\<close>\<close>

fun join_space :: "string list \<Rightarrow> string" where
  "join_space [] = []"
| "join_space [c] = c"
| "join_space (c # cs) = c @ CHR '' '' # join_space cs"

text \<open>
  Matching \<^verbatim>\<open>class_=c\<close>: one of the classes is \<open>c\<close>, or the classes joined by single
  spaces are \<open>c\<close>.
\<close>

definition class_matches :: "string \<Rightarrow> string list \<Rightarrow> bool" where
  "class_matches c cs = (c \<in> set cs \<or> join_space cs = c)"

fun is_tag :: "node \<Rightarrow> bool" where
  "is_tag (Tag n cs as ch) = True"
| "is_tag _ = False"

text \<open>The search filter: a tag of the given name and, when a class is asked for, of that
  class.\<close>

fun matches :: "string \<Rightarrow> string option \<Rightarrow> node \<Rightarrow> bool" where
  "matches nm cls (Tag n cs as ch) =
     (n = nm \<and> (case cls of None \<Rightarrow> True | Some c \<Rightarrow> class_matches c cs))"
| "matches nm cls _ = False"

text \<open>\<^verbatim>\<open>tag.find_all(name, class_=cls)\<close>\<close>

definition find_all :: "element \<Rightarrow> string \<Rightarrow> string option \<Rightarrow> element list" where
  "find_all e nm cls = filter (\<lambda>d. matches nm cls (fst d)) (descendants (fst e))"

text \<open>\<^verbatim>\<open>tag.find(name, class_=cls)\<close>: the first match or None.\<close>

definition find_elem :: "element \<Rightarrow> string \<Rightarrow> string option \<Rightarrow> element option" where
  "find_elem e nm cls = (case find_all e nm cls of [] \<Rightarrow> None | d # _ \<Rightarrow> Some d)"

text \<open>\<^verbatim>\<open>tag.find_next_sibling()\<close>: the next sibling that is a tag, or None.\<close>

fun next_tag :: "node list \<Rightarrow> element option" where
  "next_tag [] = None"
| "next_tag (x # xs) = (if is_tag x then Some (x, xs) else next_tag xs)"

definition find_next_sibling :: "element \<Rightarrow> element option" where
  "find_next_sibling e = next_tag (snd e)"

text \<open>\<^verbatim>\<open>tag[key]\<close>: KeyError when the tag has no such attribute. (A string node
  subscripted by a string is a TypeError; the program only subscripts tags.)\<close>

fun tag_getitem :: "element \<Rightarrow> string \<Rightarrow> py_error + string" where
  "tag_getitem (Tag n cs as ch, sibs) k =
     (case map_of as k of None \<Rightarrow> Inl KeyError | Some v \<Rightarrow> Inr v)"
| "tag_getitem _ k = Inl TypeError"

text \<open>\<^verbatim>\<open>x[key]\<close> where \<open>x\<close> may be None: subscripting None is a TypeError.\<close>

definition opt_getitem :: "element option \<Rightarrow> string \<Rightarrow> py_error + string" where
  "opt_getitem x k = (case x of None \<Rightarrow> Inl TypeError | Some e \<Rightarrow> tag_getitem e k)"

text \<open>\<^verbatim>\<open>tag.text\<close>: the text nodes below the tag, concatenated.\<close>

fun get_text :: "node \<Rightarrow> string"
  and get_text_list :: "node list \<Rightarrow> string" where
  "get_text (Tag n cs as ch) = get_text_list ch"
| "get_text (Text s) = s"
| "get_text (Comment s) = []"
| "get_text_list [] = []"
| "get_text_list (x # xs) = get_text x @ get_text_list xs"

text \<open>The document itself is the root element; it has no siblings.\<close>

definition soup_of :: "node \<Rightarrow> element" where
  "soup_of root = (root, [])"

section \<open>The outside world\<close>

text \<open>
  The state the program acts on: the URLs requested so far, the files opened so far (name
  and mode) and the contents of the files.
\<close>

record world =
  requested :: "string list"
  opened :: "(string \<times> string) list"
  files :: "string \<rightharpoonup> string"

text \<open>
  What the program does not decide is a parameter:
  \<^item> \<open>net\<close>: the outcome of a GET (with \<^verbatim>\<open>raise_for_status\<close> and parsing), given the
    requests made before, the URL and the headers; None is a RequestException;
  \<^item> \<open>set_order\<close>: the order in which a Python set hands out its elements when it is
    iterated (the elements are given in insertion order);
  \<^item> \<open>open_file\<close>: the outcome of \<^verbatim>\<open>open(filename, mode)\<close> for writing: None when
    opening or writing raises, otherwise what the file holds before the first write;
  \<^item> \<open>csv_row\<close>: how \<^verbatim>\<open>csv.writer\<close> lays out one row, line end included;
  \<^item> \<open>json_dump\<close>: the text \<^verbatim>\<open>json.dump(data, f, indent=4)\<close> writes.
\<close>

record env =
  net :: "string list \<Rightarrow> string \<Rightarrow> pydict \<Rightarrow> node option"
  set_order :: "pydict list \<Rightarrow> pydict list"
  open_file :: "(string \<rightharpoonup> string) \<Rightarrow> string \<Rightarrow> string \<Rightarrow> string option"
  csv_row :: "string list \<Rightarrow> string"
  json_dump :: "pydict list \<Rightarrow> string"

section \<open>Fetcher\<close>

text \<open>\<^verbatim>\<open>get_html_content(url, headers)\<close>: the parsed document, or None after a
  RequestException. The request is recorded. No caller passes \<^verbatim>\<open>proxies\<close>.\<close>

definition get_html_content :: "env \<Rightarrow> string \<Rightarrow> pydict \<Rightarrow> world \<Rightarrow> element option \<times> world" where
  "get_html_content E url headers w =
     (map_option soup_of (net E (requested w) url headers),
      w\<lparr>requested := requested w @ [url]\<rparr>)"

section \<open>Search-result extractor\<close>

text \<open>The variable \<^verbatim>\<open>name\<close> holds either the list from \<^verbatim>\<open>split\<close> or the string
  \<^verbatim>\<open>"Name not found"\<close>; \<^verbatim>\<open>name[1]\<close> is defined on both.\<close>

datatype str_or_list = PStr string | PList "string list"

fun item1 :: "str_or_list \<Rightarrow> py_error + string" where
  "item1 (PList xs) = py_index xs 1"
| "item1 (PStr s) = map_sum id (\<lambda>c. [c]) (py_index s 1)"

text \<open>\<^verbatim>\<open>link_element.find('a')\<close> when \<^verbatim>\<open>link_element\<close> is not None.\<close>

definition title_anchor :: "element \<Rightarrow> element option" where
  "title_anchor listing =
     (case find_elem listing ''h3'' (Some ''listing_title'') of
        None \<Rightarrow> None
      | Some link_element \<Rightarrow> find_elem link_element ''a'' None)"

text \<open>The body of the loop over the listings: the entry to append, None when the
  listing is skipped.\<close>

definition listing_entry :: "element \<Rightarrow> py_error + pydict option" where
  "listing_entry listing =
     (case (case title_anchor listing of
              None \<Rightarrow> Inr None
            | Some a \<Rightarrow> map_sum id Some (tag_getitem a ''href'')) of
        Inl e \<Rightarrow> Inl e
      | Inr link \<Rightarrow>
          (let name = (case title_anchor listing of
                         None \<Rightarrow> PStr ''Name not found''
                       | Some a \<Rightarrow> PList (py_split1 CHR ''.'' (get_text (fst a))))
           in case link of
                None \<Rightarrow> Inr None
              | Some l \<Rightarrow>
                  if l = [] then Inr None
                  else (case item1 name of
                          Inl e \<Rightarrow> Inl e
                        | Inr n \<Rightarrow> Inr (Some [(''name'', py_strip n), (''link'', l)]))))"

fun extract_loop :: "element list \<Rightarrow> pydict list \<Rightarrow> py_error + pydict list" where
  "extract_loop [] businesses = Inr businesses"
| "extract_loop (listing # rest) businesses =
     (case listing_entry listing of
        Inl e \<Rightarrow> Inl e
      | Inr None \<Rightarrow> extract_loop rest businesses
      | Inr (Some b) \<Rightarrow> extract_loop rest (businesses @ [b]))"

definition extract_links_from_search :: "element \<Rightarrow> py_error + pydict list" where
  "extract_links_from_search soup =
     (let listings = find_all soup ''div'' (Some ''listing_container'')
      in if listings = [] then Inr [] else extract_loop listings [])"

section \<open>Detail extractor\<close>

text \<open>The record every call starts from.\<close>

definition initial_details :: "string \<Rightarrow> pydict" where
  "initial_details url = [(''link'', url), (''email'', ''Not found''), (''website'', ''Not found'')]"

text \<open>
  The website lookup inside the contact block. The outer None is the early
  \<^verbatim>\<open>return details\<close> (no anchor of class \<^verbatim>\<open>yext.homepage\<close> and no icon); otherwise the
  value of \<^verbatim>\<open>website_link_element\<close>, which is None when the icon has no next sibling.
\<close>

definition website_link_element :: "element \<Rightarrow> element option option" where
  "website_link_element business_contact_info =
     (case find_elem business_contact_info ''a'' (Some ''yext.homepage'') of
        Some a \<Rightarrow> Some (Some a)
      | None \<Rightarrow>
          (case find_elem business_contact_info ''span'' (Some ''icon_website'') of
             Some website_icon_element \<Rightarrow> Some (find_next_sibling website_icon_element)
           | None \<Rightarrow> None))"

text \<open>The email lookup: the value of \<^verbatim>\<open>email_link_element\<close> at the final test.\<close>

definition email_link_element :: "element \<Rightarrow> element option" where
  "email_link_element business_contact_info =
     (case find_elem business_contact_info ''a'' (Some ''yext.email'') of
        Some a \<Rightarrow> Some a
      | None \<Rightarrow>
          (case find_elem business_contact_info ''span'' (Some ''icon_email'') of
             Some email_icon_element \<Rightarrow> find_next_sibling email_icon_element
           | None \<Rightarrow> None))"

definition contact_class :: string where
  "contact_class = ''details_contact_other col_item width_2_4''"

definition scrape_business_page ::
  "env \<Rightarrow> string \<Rightarrow> pydict \<Rightarrow> world \<Rightarrow> (py_error + pydict) \<times> world" where
  "scrape_business_page E url headers w =
     (let (soup, w') = get_html_content E url headers w;
          details = initial_details url
      in (case soup of
            None \<Rightarrow> Inr details
          | Some sp \<Rightarrow>
              (case find_elem sp ''div'' (Some contact_class) of
                 None \<Rightarrow> Inr details
               | Some business_contact_info \<Rightarrow>
                   (case website_link_element business_contact_info of
                      None \<Rightarrow> Inr details
                    | Some website \<Rightarrow>
                        (case email_link_element business_contact_info of
                           None \<Rightarrow> Inr details
                         | Some email \<Rightarrow>
                             (case opt_getitem website ''href'' of
                                Inl e \<Rightarrow> Inl e
                              | Inr wv \<Rightarrow>
                                  (case tag_getitem email ''href'' of
                                     Inl e \<Rightarrow> Inl e
                                   | Inr ev \<Rightarrow>
                                       Inr (dict_set (dict_set details ''website'' wv) ''email''
                                              (py_strip (py_replace ''mailto:'' [] ev)))))))),
          w'))"

section \<open>CSV writer\<close>

text \<open>
  \<^verbatim>\<open>DictWriter\<close> with the keys of the first row as field names: a row with a key outside
  the field names raises ValueError, which ends the writing; a missing key is written
  as the empty string.
\<close>

definition row_fits :: "string list \<Rightarrow> pydict \<Rightarrow> bool" where
  "row_fits fieldnames row = (set (map fst row) \<subseteq> set fieldnames)"

definition row_values :: "string list \<Rightarrow> pydict \<Rightarrow> string list" where
  "row_values fieldnames row =
     map (\<lambda>k. case map_of row k of None \<Rightarrow> [] | Some v \<Rightarrow> v) fieldnames"

definition save_to_csv ::
  "env \<Rightarrow> pydict list \<Rightarrow> string \<Rightarrow> string \<Rightarrow> bool \<Rightarrow> world \<Rightarrow> world" where
  "save_to_csv E data filename mode header w =
     (if data = [] then w
      else
        (let w1 = w\<lparr>opened := opened w @ [(filename, mode)]\<rparr>
         in case open_file E (files w) filename mode of
              None \<Rightarrow> w1
            | Some existing \<Rightarrow>
                (let fieldnames = map fst (hd data);
                     head = (if header then csv_row E fieldnames else []);
                     rows = map (\<lambda>r. csv_row E (row_values fieldnames r))
                              (takeWhile (row_fits fieldnames) data)
                 in w1\<lparr>files := (files w1)(filename \<mapsto> existing @ head @ concat rows)\<rparr>)))"

section \<open>Pipeline driver\<close>

definition headers :: pydict where
  "headers = [(''User-Agent'',
     ''Mozilla/5.0 (Windows NT 10.0; Win64; x64) AppleWebKit/537.36 (KHTML, like Gecko) Chrome/91.0.4472.124 Safari/537.36'')]"

definition MAX_PAGES :: nat where
  "MAX_PAGES = 95"

definition base_url_pattern :: string where
  "base_url_pattern = ''https://www.goldenpages.ie/q/business/advanced/what/plumbers/''"

text \<open>The decimal numeral of a number, as an f-string prints it.\<close>

fun str_of_nat :: "nat \<Rightarrow> string" where
  "str_of_nat n =
     (if n < 10 then [''0123456789'' ! n]
      else str_of_nat (n div 10) @ [''0123456789'' ! (n mod 10)])"

declare str_of_nat.simps [simp del]

definition current_url :: "nat \<Rightarrow> string" where
  "current_url page_num =
     (if page_num > 1 then base_url_pattern @ str_of_nat page_num @ ''/'' else base_url_pattern)"

text \<open>
  A Python set of hashable values, kept as a list without repetition in insertion
  order: \<^verbatim>\<open>s.add(x)\<close> leaves the set as it is when an equal element is in it.
\<close>

definition set_add :: "'a list \<Rightarrow> 'a \<Rightarrow> 'a list" where
  "set_add s x = (if x \<in> set s then s else s @ [x])"

text \<open>\<^verbatim>\<open>tuple(link_data.items())\<close> and \<^verbatim>\<open>dict(link_tuple)\<close>\<close>

definition items_tuple :: "pydict \<Rightarrow> (string \<times> string) list" where
  "items_tuple d = d"

definition dict_of_tuple :: "(string \<times> string) list \<Rightarrow> pydict" where
  "dict_of_tuple t = foldl (\<lambda>d (k, v). dict_set d k v) [] t"

text \<open>Phase 1: the loop over the page numbers still to visit. A \<^verbatim>\<open>break\<close> returns the
  set collected so far.\<close>

fun collect_links ::
  "env \<Rightarrow> nat list \<Rightarrow> (string \<times> string) list list \<Rightarrow> world
     \<Rightarrow> (py_error + (string \<times> string) list list) \<times> world" where
  "collect_links E [] all_business_links_set w = (Inr all_business_links_set, w)"
| "collect_links E (page_num # rest) all_business_links_set w =
     (let (soup, w') = get_html_content E (current_url page_num) headers w
      in case soup of
           None \<Rightarrow> (Inr all_business_links_set, w')
         | Some sp \<Rightarrow>
             (case extract_links_from_search sp of
                Inl e \<Rightarrow> (Inl e, w')
              | Inr links_on_page \<Rightarrow>
                  if links_on_page = [] then (Inr all_business_links_set, w')
                  else collect_links E rest
                         (foldl set_add all_business_links_set (map items_tuple links_on_page)) w'))"

text \<open>Phase 1 with the page ceiling as a parameter (\<open>MAX_PAGES\<close> in \<open>main\<close>).\<close>

definition phase1 ::
  "env \<Rightarrow> nat \<Rightarrow> world \<Rightarrow> (py_error + (string \<times> string) list list) \<times> world" where
  "phase1 E max_pages w = collect_links E [1 ..< max_pages + 1] [] w"

text \<open>\<^verbatim>\<open>{'name': business['name'], **details}\<close>\<close>

definition final_data :: "string \<Rightarrow> pydict \<Rightarrow> pydict" where
  "final_data nm details = foldl (\<lambda>d (k, v). dict_set d k v) [(''name'', nm)] details"

text \<open>Phase 2: the loop over the unique listings.\<close>

fun scrape_all ::
  "env \<Rightarrow> pydict list \<Rightarrow> pydict list \<Rightarrow> world \<Rightarrow> (py_error + pydict list) \<times> world" where
  "scrape_all E [] all_scraped_data w = (Inr all_scraped_data, w)"
| "scrape_all E (business # rest) all_scraped_data w =
     (case dict_get business ''name'' of
        Inl e \<Rightarrow> (Inl e, w)
      | Inr nm \<Rightarrow>
          (case dict_get business ''link'' of
             Inl e \<Rightarrow> (Inl e, w)
           | Inr lnk \<Rightarrow>
               (let full_url = ''https://www.goldenpages.ie'' @ lnk;
                    (r, w') = scrape_business_page E full_url headers w
                in case r of
                     Inl e \<Rightarrow> (Inl e, w')
                   | Inr details \<Rightarrow>
                       (case dict_get details ''website'' of
                          Inl e \<Rightarrow> (Inl e, w')
                        | Inr website \<Rightarrow>
                            if website \<noteq> ''Not found''
                            then scrape_all E rest (all_scraped_data @ [final_data nm details]) w'
                            else scrape_all E rest all_scraped_data w'))))"

text \<open>Phase 3: the JSON file, written when there is something to write.\<close>

definition json_file_name :: string where
  "json_file_name = ''golden_pages_data.json''"

definition save_json :: "env \<Rightarrow> pydict list \<Rightarrow> world \<Rightarrow> world" where
  "save_json E all_scraped_data w =
     (if all_scraped_data \<noteq> []
      then (let w1 = w\<lparr>opened := opened w @ [(json_file_name, ''w'')]\<rparr>
            in case open_file E (files w) json_file_name ''w'' of
                 None \<Rightarrow> w1
               | Some existing \<Rightarrow>
                   w1\<lparr>files := (files w1)(json_file_name \<mapsto> existing @ json_dump E all_scraped_data)\<rparr>)
      else w)"

text \<open>\<open>main\<close> returns the output collection (empty when Phase 1 found nothing) and the
  world it leaves, or the exception that ended it.\<close>

definition main :: "env \<Rightarrow> world \<Rightarrow> (py_error + pydict list) \<times> world" where
  "main E w =
     (let (r1, w1) = phase1 E MAX_PAGES w
      in case r1 of
           Inl e \<Rightarrow> (Inl e, w1)
         | Inr all_business_links_set \<Rightarrow>
             (let all_business_links = map dict_of_tuple (set_order E all_business_links_set)
              in if all_business_links = [] then (Inr [], w1)
                 else (let (r2, w2) = scrape_all E all_business_links [] w1
                       in case r2 of
                            Inl e \<Rightarrow> (Inl e, w2)
                          | Inr all_scraped_data \<Rightarrow>
                              (Inr all_scraped_data, save_json E all_scraped_data w2))))"

section \<open>Notions used to state the properties\<close>

text \<open>
  The listing references Phase 1 reads from the pages it visits, repetitions included:
  the loop of \<open>collect_links\<close> without the set.
\<close>

fun links_seen :: "env \<Rightarrow> nat list \<Rightarrow> world \<Rightarrow> pydict list" where
  "links_seen E [] w = []"
| "links_seen E (page_num # rest) w =
     (let (soup, w') = get_html_content E (current_url page_num) headers w
      in case soup of
           None \<Rightarrow> []
         | Some sp \<Rightarrow>
             (case extract_links_from_search sp of
                Inl e \<Rightarrow> []
              | Inr links_on_page \<Rightarrow>
                  if links_on_page = [] then []
                  else links_on_page @ links_seen E rest w'))"

text \<open>A record of the output collection passes the filter of Phase 2.\<close>

definition has_website :: "pydict \<Rightarrow> bool" where
  "has_website r =
     (case map_of r ''website'' of None \<Rightarrow> False | Some ws \<Rightarrow> ws \<noteq> ''Not found'')"

text \<open>\<open>pat\<close> occurs somewhere in the string.\<close>

fun occurs :: "string \<Rightarrow> string \<Rightarrow> bool" where
  "occurs pat [] = (pat = [])"
| "occurs pat (c # cs) = (take (length pat) (c # cs) = pat \<or> occurs pat cs)"

text \<open>
  The email value as the specification words it: a leading \<^verbatim>\<open>mailto:\<close> removed, the
  rest of the href untouched, then trimmed.
\<close>

definition spec_email :: "string \<Rightarrow> string" where
  "spec_email href = py_strip (if take 7 href = ''mailto:'' then drop 7 href else href)"

section \<open>Example sites and pages\<close>

text \<open>A site that answers each URL with a fixed document, whatever was asked before.\<close>

definition serve :: "(string \<times> node) list \<Rightarrow> env" where
  "serve pages =
     \<lparr>net = (\<lambda>log url hdrs. map_of pages url), set_order = (\<lambda>s. s),
      open_file = (\<lambda>fs name mode. Some []), csv_row = concat, json_dump = (\<lambda>data. [])\<rparr>"

definition w0 :: world where
  "w0 = \<lparr>requested = [], opened = [], files = Map.empty\<rparr>"

text \<open>A world in which \<^verbatim>\<open>out.csv\<close> already exists.\<close>

definition w_old_file :: world where
  "w_old_file = \<lparr>requested = [], opened = [], files = [''out.csv'' \<mapsto> ''name,link'']\<rparr>"

definition listing_div :: "string \<Rightarrow> string \<Rightarrow> node" where
  "listing_div title href =
     Tag ''div'' [''listing_container''] []
       [Tag ''h3'' [''listing_title''] [] [Tag ''a'' [] [(''href'', href)] [Text title]]]"

definition page_one_listing :: node where
  "page_one_listing = Tag ''[document]'' [] [] [listing_div ''Acme.Plumbing Co'' ''/biz/123'']"

definition page_padded_listing :: node where
  "page_padded_listing = Tag ''[document]'' [] [] [listing_div ''12. Acme Ltd. Co. '' ''/biz/456'']"

definition page_no_period :: node where
  "page_no_period = Tag ''[document]'' [] [] [listing_div ''Acme Plumbing Co'' ''/biz/123'']"

definition page_repeated_listing :: node where
  "page_repeated_listing = Tag ''[document]'' [] []
     [listing_div ''Acme.Plumbing Co'' ''/biz/123'',
      listing_div ''Acme.Plumbing Co'' ''/biz/123'',
      listing_div ''Acme.Plumbing Co'' ''/biz/456'']"

definition page_no_listing :: node where
  "page_no_listing = Tag ''[document]'' [] [] [Tag ''p'' [] [] [Text ''No results'']]"

definition contact_div :: "node list \<Rightarrow> node" where
  "contact_div ch = Tag ''div'' [''details_contact_other'', ''col_item'', ''width_2_4''] [] ch"

definition contact_page :: "node list \<Rightarrow> node" where
  "contact_page ch = Tag ''[document]'' [] [] [contact_div ch]"

definition homepage_anchor :: node where
  "homepage_anchor =
     Tag ''a'' [''yext.homepage''] [(''href'', ''http://acme.ie'')] [Text ''Website'']"

definition email_anchor :: "string \<Rightarrow> node" where
  "email_anchor href = Tag ''a'' [''yext.email''] [(''href'', href)] []"

definition page_website_only :: node where
  "page_website_only = contact_page [homepage_anchor]"

definition page_without_contact :: node where
  "page_without_contact = Tag ''[document]'' [] [] [homepage_anchor]"

definition page_icon_last :: node where
  "page_icon_last =
     contact_page [email_anchor ''mailto:a@b.com'', Tag ''span'' [''icon_website''] [] []]"

definition page_sibling_no_href :: node where
  "page_sibling_no_href =
     contact_page [Tag ''span'' [''icon_website''] [] [], Tag ''a'' [] [] [Text ''acme.ie''],
       email_anchor ''mailto:a@b.com'']"

definition page_two_mailto :: node where
  "page_two_mailto =
     contact_page [homepage_anchor, email_anchor ''mailto:a@b.com?cc=mailto:c@d.com'']"

definition page_plain_email :: node where
  "page_plain_email =
     contact_page [homepage_anchor, email_anchor ''mailto: info@acme.ie '']"

definition three_pages :: env where
  "three_pages =
     serve [(current_url 1, page_one_listing), (current_url 2, page_no_listing),
            (current_url 3, page_repeated_listing)]"

definition small_site :: env where
  "small_site =
     serve [(current_url 1, page_one_listing),
            (''https://www.goldenpages.ie/biz/123'', page_two_mailto)]"

section \<open>Facts about the string methods\<close>

lemma py_split1_first: "c \<notin> set pre \<Longrightarrow> py_split1 c (pre @ c # post) = [pre, post]"
  by (induction pre) (auto simp: py_split1_def)

lemma py_split1_none: "c \<notin> set s \<Longrightarrow> py_split1 c s = [s]"
  by (simp add: py_split1_def)

lemma py_replace_absent: "pat \<noteq> [] \<Longrightarrow> \<not> occurs pat s \<Longrightarrow> py_replace pat new s = s"
  by (induction s) auto

lemma py_replace_prefix:
  assumes "pat \<noteq> []" and "\<not> occurs pat rest"
  shows "py_replace pat [] (pat @ rest) = rest"
proof -
  obtain c cs where p: "pat = c # cs"
    using assms(1) by (cases pat) auto
  have "py_replace pat [] (pat @ rest) = py_replace pat [] (drop (length pat) (pat @ rest))"
    unfolding p by simp
  then show ?thesis
    using assms by (simp add: py_replace_absent)
qed

lemma rev_split_while: "rev (dropWhile P xs) @ rev (takeWhile P xs) = rev xs"
  by (metis rev_append takeWhile_dropWhile_id)

lemma last_dropWhile_nonempty: "dropWhile P xs \<noteq> [] \<Longrightarrow> last (dropWhile P xs) = last xs"
  by (metis last_appendR takeWhile_dropWhile_id)

text \<open>\<open>py_strip\<close> removes whitespace, and only whitespace, from both ends.\<close>

lemma py_strip_decomp:
  "\<exists>a b. s = a @ py_strip s @ b \<and> (\<forall>c\<in>set a. is_space c) \<and> (\<forall>c\<in>set b. is_space c)"
proof -
  let ?m = "dropWhile is_space s"
  let ?a = "takeWhile is_space s"
  let ?b = "rev (takeWhile is_space (rev ?m))"
  have "py_strip s @ ?b = rev (rev ?m)"
    unfolding py_strip_def by (rule rev_split_while)
  then have m: "?m = py_strip s @ ?b"
    by simp
  have "s = ?a @ ?m"
    by simp
  with m have "s = ?a @ py_strip s @ ?b"
    by simp
  moreover have "\<forall>c\<in>set ?a. is_space c"
    by (auto dest: set_takeWhileD)
  moreover have "\<forall>c\<in>set ?b. is_space c"
    by (auto dest: set_takeWhileD)
  ultimately show ?thesis
    by blast
qed

text \<open>What \<open>py_strip\<close> returns neither starts nor ends with whitespace.\<close>

lemma py_strip_ends:
  assumes "py_strip s \<noteq> []"
  shows "\<not> is_space (hd (py_strip s)) \<and> \<not> is_space (last (py_strip s))"
proof -
  let ?m = "dropWhile is_space s"
  let ?k = "dropWhile is_space (rev ?m)"
  from assms have k: "?k \<noteq> []"
    by (simp add: py_strip_def)
  have m: "?m \<noteq> []"
  proof
    assume e: "?m = []"
    have "?k = []"
      unfolding e by simp
    with k show False
      by contradiction
  qed
  have "last (py_strip s) = hd ?k"
    using k by (simp add: py_strip_def last_rev)
  moreover have "\<not> is_space (hd ?k)"
    using k by (rule hd_dropWhile)
  moreover have "hd (py_strip s) = last ?k"
    using k by (simp add: py_strip_def hd_rev)
  moreover have "last ?k = last (rev ?m)"
    using k by (rule last_dropWhile_nonempty)
  moreover have "last (rev ?m) = hd ?m"
    using m by (simp add: last_rev)
  moreover have "\<not> is_space (hd ?m)"
    using m by (rule hd_dropWhile)
  ultimately show ?thesis
    by simp
qed

section \<open>Search-result extractor\<close>

lemma listing_entry_resolved:
  assumes "title_anchor listing = Some a" and "tag_getitem a ''href'' = Inr l" and "l \<noteq> []"
  shows "listing_entry listing =
     (case py_index (py_split1 CHR ''.'' (get_text (fst a))) 1 of
        Inl e \<Rightarrow> Inl e
      | Inr n \<Rightarrow> Inr (Some [(''name'', py_strip n), (''link'', l)]))"
  using assms by (simp add: listing_entry_def)

lemma extract_loop_no_error:
  "extract_loop ls acc = Inr bs \<Longrightarrow> listing \<in> set ls \<Longrightarrow> \<exists>r. listing_entry listing = Inr r"
proof (induction ls arbitrary: acc)
  case Nil
  then show ?case by simp
next
  case (Cons x xs)
  show ?case
  proof (cases "listing_entry x")
    case (Inl e)
    with Cons.prems show ?thesis by simp
  next
    case (Inr r)
    with Cons show ?thesis
      by (cases r) auto
  qed
qed

text \<open>
  C6. A listing page with one container whose title link has a non-empty href \<open>l\<close> and the
  text \<open>pre.post\<close> (no period in \<open>pre\<close>) yields exactly one entry: the link is \<open>l\<close>
  and the name is \<open>post\<close> trimmed, that is, \<open>post\<close> without a run of whitespace at its
  start and one at its end, and the name itself neither starts nor ends with whitespace.
  With href \<^verbatim>\<open>/biz/123\<close> and text \<^verbatim>\<open>Acme.Plumbing Co\<close> the entry is name
  \<^verbatim>\<open>Plumbing Co\<close>, link \<^verbatim>\<open>/biz/123\<close>.
\<close>

theorem C6_search_extractor_scenario:
  assumes "find_all soup ''div'' (Some ''listing_container'') = [listing]"
      and "title_anchor listing = Some a"
      and "tag_getitem a ''href'' = Inr l" and "l \<noteq> []"
      and "get_text (fst a) = pre @ CHR ''.'' # post" and "CHR ''.'' \<notin> set pre"
  shows "extract_links_from_search soup = Inr [[(''name'', py_strip post), (''link'', l)]]
       \<and> (\<exists>lead trail. post = lead @ py_strip post @ trail
             \<and> (\<forall>c\<in>set lead. is_space c) \<and> (\<forall>c\<in>set trail. is_space c))
       \<and> (py_strip post \<noteq> [] \<longrightarrow>
             \<not> is_space (hd (py_strip post)) \<and> \<not> is_space (last (py_strip post)))"
proof (intro conjI impI)
  have "listing_entry listing = Inr (Some [(''name'', py_strip post), (''link'', l)])"
    using assms by (simp add: listing_entry_resolved py_split1_first py_index_def)
  then show "extract_links_from_search soup = Inr [[(''name'', py_strip post), (''link'', l)]]"
    using assms(1) by (simp add: extract_links_from_search_def)
next
  show "\<exists>lead trail. post = lead @ py_strip post @ trail
             \<and> (\<forall>c\<in>set lead. is_space c) \<and> (\<forall>c\<in>set trail. is_space c)"
    by (rule py_strip_decomp)
next
  assume "py_strip post \<noteq> []"
  then show "\<not> is_space (hd (py_strip post))" and "\<not> is_space (last (py_strip post))"
    by (simp_all add: py_strip_ends)
qed

theorem C6_search_extractor_scenario_witness:
  "find_all (soup_of page_one_listing) ''div'' (Some ''listing_container'')
     = [(listing_div ''Acme.Plumbing Co'' ''/biz/123'', [])]
   \<and> title_anchor (listing_div ''Acme.Plumbing Co'' ''/biz/123'', [])
     = Some (Tag ''a'' [] [(''href'', ''/biz/123'')] [Text ''Acme.Plumbing Co''], [])
   \<and> tag_getitem (Tag ''a'' [] [(''href'', ''/biz/123'')] [Text ''Acme.Plumbing Co''], []) ''href''
     = Inr ''/biz/123''
   \<and> get_text (Tag ''a'' [] [(''href'', ''/biz/123'')] [Text ''Acme.Plumbing Co''])
     = ''Acme'' @ CHR ''.'' # ''Plumbing Co''
   \<and> extract_links_from_search (soup_of page_one_listing)
     = Inr [[(''name'', ''Plumbing Co''), (''link'', ''/biz/123'')]]
   \<and> find_all (soup_of page_padded_listing) ''div'' (Some ''listing_container'')
     = [(listing_div ''12. Acme Ltd. Co. '' ''/biz/456'', [])]
   \<and> title_anchor (listing_div ''12. Acme Ltd. Co. '' ''/biz/456'', [])
     = Some (Tag ''a'' [] [(''href'', ''/biz/456'')] [Text ''12. Acme Ltd. Co. ''], [])
   \<and> get_text (Tag ''a'' [] [(''href'', ''/biz/456'')] [Text ''12. Acme Ltd. Co. ''])
     = ''12'' @ CHR ''.'' # '' Acme Ltd. Co. ''
   \<and> extract_links_from_search (soup_of page_padded_listing)
     = Inr [[(''name'', ''Acme Ltd. Co.''), (''link'', ''/biz/456'')]]
   \<and> '' Acme Ltd. Co. '' = '' '' @ ''Acme Ltd. Co.'' @ '' ''
   \<and> is_space CHR '' ''
   \<and> is_space (hd ''Acme Ltd. Co.'') = False
   \<and> is_space (last ''Acme Ltd. Co.'') = False"
proof -
  let ?a = "(Tag ''a'' [] [(''href'', ''/biz/123'')] [Text ''Acme.Plumbing Co''], [])"
  let ?listing = "(listing_div ''Acme.Plumbing Co'' ''/biz/123'', [])"
  let ?a' = "(Tag ''a'' [] [(''href'', ''/biz/456'')] [Text ''12. Acme Ltd. Co. ''], [])"
  let ?listing' = "(listing_div ''12. Acme Ltd. Co. '' ''/biz/456'', [])"
  have h1: "find_all (soup_of page_one_listing) ''div'' (Some ''listing_container'') = [?listing]"
    by code_simp
  have h2: "title_anchor ?listing = Some ?a"
    by code_simp
  have h3: "tag_getitem ?a ''href'' = Inr ''/biz/123''"
    by simp
  have h4: "''/biz/123'' \<noteq> []"
    by simp
  have h5: "get_text (fst ?a) = ''Acme'' @ CHR ''.'' # ''Plumbing Co''"
    by simp
  have h6: "CHR ''.'' \<notin> set ''Acme''"
    by simp
  have s: "py_strip ''Plumbing Co'' = ''Plumbing Co''"
    by code_simp
  have k1: "find_all (soup_of page_padded_listing) ''div'' (Some ''listing_container'') = [?listing']"
    by code_simp
  have k2: "title_anchor ?listing' = Some ?a'"
    by code_simp
  have k3: "tag_getitem ?a' ''href'' = Inr ''/biz/456''"
    by simp
  have k4: "''/biz/456'' \<noteq> []"
    by simp
  have k5: "get_text (fst ?a') = ''12'' @ CHR ''.'' # '' Acme Ltd. Co. ''"
    by simp
  have k6: "CHR ''.'' \<notin> set ''12''"
    by simp
  have s': "py_strip '' Acme Ltd. Co. '' = ''Acme Ltd. Co.''"
    by code_simp
  have sp: "is_space CHR '' ''"
    by code_simp
  have r: "extract_links_from_search (soup_of page_one_listing)
     = Inr [[(''name'', ''Plumbing Co''), (''link'', ''/biz/123'')]]"
    using C6_search_extractor_scenario [OF h1 h2 h3 h4 h5 h6, THEN conjunct1]
    unfolding s .
  note T = C6_search_extractor_scenario [OF k1 k2 k3 k4 k5 k6, unfolded s']
  have r': "extract_links_from_search (soup_of page_padded_listing)
     = Inr [[(''name'', ''Acme Ltd. Co.''), (''link'', ''/biz/456'')]]"
    using T by (rule conjunct1)
  have ne: "''Acme Ltd. Co.'' \<noteq> []"
    by simp
  have e: "\<not> is_space (hd ''Acme Ltd. Co.'') \<and> \<not> is_space (last ''Acme Ltd. Co.'')"
    using T [THEN conjunct2, THEN conjunct2, THEN mp, OF ne] .
  from h1 h2 h3 h5 r k1 k2 k5 r' sp e show ?thesis
    by simp
qed

text \<open>
  C9. The search-result extractor is partial. Splitting a text without a period gives
  the one-element list, and element 1 of it is an IndexError; a listing whose title link
  has a non-empty href and a text without a period makes the loop raise IndexError; so
  when the extractor returns, the text of every title link with a non-empty href has a
  period.
\<close>

theorem C9_search_extractor_partial:
  "(CHR ''.'' \<notin> set t \<longrightarrow>
      py_split1 CHR ''.'' t = [t] \<and> item1 (PList (py_split1 CHR ''.'' t)) = Inl IndexError)
   \<and> (title_anchor listing = Some a \<and> tag_getitem a ''href'' = Inr l \<and> l \<noteq> []
        \<and> CHR ''.'' \<notin> set (get_text (fst a)) \<longrightarrow>
      listing_entry listing = Inl IndexError
      \<and> extract_loop (listing # rest) businesses = Inl IndexError)
   \<and> (extract_links_from_search soup = Inr bs \<longrightarrow>
      (\<forall>c \<in> set (find_all soup ''div'' (Some ''listing_container'')).
         \<forall>a' l'. title_anchor c = Some a' \<and> tag_getitem a' ''href'' = Inr l' \<and> l' \<noteq> []
           \<longrightarrow> CHR ''.'' \<in> set (get_text (fst a'))))"
proof (intro conjI impI ballI allI)
  assume "CHR ''.'' \<notin> set t"
  then show "py_split1 CHR ''.'' t = [t]"
    and "item1 (PList (py_split1 CHR ''.'' t)) = Inl IndexError"
    by (simp_all add: py_split1_none py_index_def)
next
  assume h: "title_anchor listing = Some a \<and> tag_getitem a ''href'' = Inr l \<and> l \<noteq> []
        \<and> CHR ''.'' \<notin> set (get_text (fst a))"
  then show e: "listing_entry listing = Inl IndexError"
    by (simp add: listing_entry_resolved py_split1_none py_index_def)
  then show "extract_loop (listing # rest) businesses = Inl IndexError"
    by simp
next
  fix c a' l'
  assume r: "extract_links_from_search soup = Inr bs"
    and c: "c \<in> set (find_all soup ''div'' (Some ''listing_container''))"
    and h: "title_anchor c = Some a' \<and> tag_getitem a' ''href'' = Inr l' \<and> l' \<noteq> []"
  from c have ne: "find_all soup ''div'' (Some ''listing_container'') \<noteq> []"
    by auto
  with r have "extract_loop (find_all soup ''div'' (Some ''listing_container'')) [] = Inr bs"
    by (simp add: extract_links_from_search_def)
  from extract_loop_no_error [OF this c] obtain x where x: "listing_entry c = Inr x"
    by blast
  show "CHR ''.'' \<in> set (get_text (fst a'))"
  proof (rule ccontr)
    assume "CHR ''.'' \<notin> set (get_text (fst a'))"
    with h have "listing_entry c = Inl IndexError"
      by (simp add: listing_entry_resolved py_split1_none py_index_def)
    with x show False by simp
  qed
qed

theorem C9_search_extractor_partial_witness:
  "py_split1 CHR ''.'' ''Acme Plumbing Co'' = [''Acme Plumbing Co'']
   \<and> item1 (PList (py_split1 CHR ''.'' ''Acme Plumbing Co'')) = Inl IndexError
   \<and> title_anchor (listing_div ''Acme Plumbing Co'' ''/biz/123'', [])
     = Some (Tag ''a'' [] [(''href'', ''/biz/123'')] [Text ''Acme Plumbing Co''], [])
   \<and> listing_entry (listing_div ''Acme Plumbing Co'' ''/biz/123'', []) = Inl IndexError
   \<and> extract_links_from_search (soup_of page_no_period) = Inl IndexError
   \<and> extract_links_from_search (soup_of page_one_listing)
     = Inr [[(''name'', ''Plumbing Co''), (''link'', ''/biz/123'')]]
   \<and> CHR ''.'' \<in> set (get_text (Tag ''a'' [] [(''href'', ''/biz/123'')] [Text ''Acme.Plumbing Co'']))"
proof -
  let ?a = "(Tag ''a'' [] [(''href'', ''/biz/123'')] [Text ''Acme Plumbing Co''], [])"
  let ?listing = "(listing_div ''Acme Plumbing Co'' ''/biz/123'', [])"
  let ?a1 = "(Tag ''a'' [] [(''href'', ''/biz/123'')] [Text ''Acme.Plumbing Co''], [])"
  let ?listing1 = "(listing_div ''Acme.Plumbing Co'' ''/biz/123'', [])"
  let ?bs = "[[(''name'', ''Plumbing Co''), (''link'', ''/biz/123'')]]"
  note T = C9_search_extractor_partial
    [of "''Acme Plumbing Co''" ?listing ?a "''/biz/123''" "[]" "[]" "soup_of page_one_listing" ?bs]
  have t: "CHR ''.'' \<notin> set ''Acme Plumbing Co''"
    by simp
  have h2: "title_anchor ?listing = Some ?a"
    by code_simp
  have h3: "tag_getitem ?a ''href'' = Inr ''/biz/123'' \<and> ''/biz/123'' \<noteq> []
      \<and> CHR ''.'' \<notin> set (get_text (fst ?a))"
    by simp
  have e: "extract_links_from_search (soup_of page_no_period) = Inl IndexError"
    by code_simp
  have r: "extract_links_from_search (soup_of page_one_listing) = Inr ?bs"
    by code_simp
  have c: "?listing1 \<in> set (find_all (soup_of page_one_listing) ''div'' (Some ''listing_container''))"
    by code_simp
  have h2': "title_anchor ?listing1 = Some ?a1"
    by code_simp
  have h3': "tag_getitem ?a1 ''href'' = Inr ''/biz/123'' \<and> ''/biz/123'' \<noteq> []"
    by simp
  from T t have "py_split1 CHR ''.'' ''Acme Plumbing Co'' = [''Acme Plumbing Co'']
      \<and> item1 (PList (py_split1 CHR ''.'' ''Acme Plumbing Co'')) = Inl IndexError"
    by blast
  moreover from T h2 h3 have "listing_entry ?listing = Inl IndexError"
    by blast
  moreover have "CHR ''.'' \<in> set (get_text (fst ?a1))"
    using T [THEN conjunct2, THEN conjunct2, THEN mp, OF r, THEN bspec, OF c,
        THEN spec, THEN spec, THEN mp, of ?a1 "''/biz/123''"] h2' h3'
    by simp
  ultimately show ?thesis
    using h2 e r by (simp add: py_index_def)
qed

section \<open>Detail extractor\<close>

lemma scrape_fetch_failed:
  "net E (requested w) url hdrs = None \<Longrightarrow>
   fst (scrape_business_page E url hdrs w) = Inr (initial_details url)"
  by (simp add: scrape_business_page_def get_html_content_def)

lemma scrape_no_container:
  "net E (requested w) url hdrs = Some root \<Longrightarrow>
   find_elem (soup_of root) ''div'' (Some contact_class) = None \<Longrightarrow>
   fst (scrape_business_page E url hdrs w) = Inr (initial_details url)"
  by (simp add: scrape_business_page_def get_html_content_def)

lemma scrape_with_container:
  assumes "net E (requested w) url hdrs = Some root"
      and "find_elem (soup_of root) ''div'' (Some contact_class) = Some info"
  shows "fst (scrape_business_page E url hdrs w) =
     (case website_link_element info of
        None \<Rightarrow> Inr (initial_details url)
      | Some website \<Rightarrow>
          (case email_link_element info of
             None \<Rightarrow> Inr (initial_details url)
           | Some email \<Rightarrow>
               (case opt_getitem website ''href'' of
                  Inl e \<Rightarrow> Inl e
                | Inr wv \<Rightarrow>
                    (case tag_getitem email ''href'' of
                       Inl e \<Rightarrow> Inl e
                     | Inr ev \<Rightarrow>
                         Inr [(''link'', url),
                              (''email'', py_strip (py_replace ''mailto:'' [] ev)),
                              (''website'', wv)]))))"
  using assms
  by (simp add: scrape_business_page_def get_html_content_def initial_details_def
      split: option.splits sum.splits)

lemma scrape_result_shape:
  "fst (scrape_business_page E url hdrs w) = Inr d \<Longrightarrow>
   \<exists>em ws. d = [(''link'', url), (''email'', em), (''website'', ws)]"
  by (auto simp: scrape_business_page_def get_html_content_def initial_details_def Let_def
      split: option.splits sum.splits)

text \<open>
  C1. On a detail page that has the contact-info container: when no email anchor is
  found (neither by the primary selector nor next to the icon), the returned record has
  website \<^verbatim>\<open>Not found\<close>, whatever the website lookup found; and a returned record whose
  website is not the sentinel implies that an email anchor was found.
\<close>

theorem C1_website_gated_on_email:
  assumes "net E (requested w) url hdrs = Some root"
      and "find_elem (soup_of root) ''div'' (Some contact_class) = Some info"
  shows "(email_link_element info = None \<longrightarrow>
            (\<exists>d. fst (scrape_business_page E url hdrs w) = Inr d
                 \<and> dict_get d ''website'' = Inr ''Not found''))
       \<and> (\<forall>d v. fst (scrape_business_page E url hdrs w) = Inr d
                 \<and> dict_get d ''website'' = Inr v \<and> v \<noteq> ''Not found''
              \<longrightarrow> email_link_element info \<noteq> None)"
proof -
  have a: "fst (scrape_business_page E url hdrs w) = Inr (initial_details url)"
    if "email_link_element info = None"
    using that scrape_with_container [OF assms] by (simp split: option.splits)
  have b: "dict_get (initial_details url) ''website'' = Inr ''Not found''"
    by (simp add: initial_details_def dict_get_def)
  show ?thesis
  proof (intro conjI impI allI)
    assume "email_link_element info = None"
    with a b show "\<exists>d. fst (scrape_business_page E url hdrs w) = Inr d
                 \<and> dict_get d ''website'' = Inr ''Not found''"
      by simp
  next
    fix d v
    assume h: "fst (scrape_business_page E url hdrs w) = Inr d
                 \<and> dict_get d ''website'' = Inr v \<and> v \<noteq> ''Not found''"
    show "email_link_element info \<noteq> None"
    proof
      assume "email_link_element info = None"
      with a b h show False by auto
    qed
  qed
qed

theorem C1_website_gated_on_email_witness:
  "net (serve [(''u'', page_website_only)]) (requested w0) ''u'' headers = Some page_website_only
   \<and> find_elem (soup_of page_website_only) ''div'' (Some contact_class)
       = Some (contact_div [homepage_anchor], [])
   \<and> website_link_element (contact_div [homepage_anchor], []) = Some (Some (homepage_anchor, []))
   \<and> email_link_element (contact_div [homepage_anchor], []) = None
   \<and> fst (scrape_business_page (serve [(''u'', page_website_only)]) ''u'' headers w0)
       = Inr [(''link'', ''u''), (''email'', ''Not found''), (''website'', ''Not found'')]
   \<and> net (serve [(''u'', page_plain_email)]) (requested w0) ''u'' headers = Some page_plain_email
   \<and> find_elem (soup_of page_plain_email) ''div'' (Some contact_class)
       = Some (contact_div [homepage_anchor, email_anchor ''mailto: info@acme.ie ''], [])
   \<and> fst (scrape_business_page (serve [(''u'', page_plain_email)]) ''u'' headers w0)
       = Inr [(''link'', ''u''), (''email'', ''info@acme.ie''), (''website'', ''http://acme.ie'')]
   \<and> email_link_element (contact_div [homepage_anchor, email_anchor ''mailto: info@acme.ie ''], [])
       = Some (email_anchor ''mailto: info@acme.ie '', [])"
proof -
  let ?E = "serve [(''u'', page_website_only)]"
  let ?info = "(contact_div [homepage_anchor], [])"
  let ?E' = "serve [(''u'', page_plain_email)]"
  let ?info' = "(contact_div [homepage_anchor, email_anchor ''mailto: info@acme.ie ''], [])"
  let ?d' = "[(''link'', ''u''), (''email'', ''info@acme.ie''), (''website'', ''http://acme.ie'')]"
  have a: "net ?E (requested w0) ''u'' headers = Some page_website_only"
    by code_simp
  have b: "find_elem (soup_of page_website_only) ''div'' (Some contact_class) = Some ?info"
    by code_simp
  have c: "website_link_element ?info = Some (Some (homepage_anchor, []))"
    by code_simp
  have d: "email_link_element ?info = None"
    by code_simp
  have e: "fst (scrape_business_page ?E ''u'' headers w0)
       = Inr [(''link'', ''u''), (''email'', ''Not found''), (''website'', ''Not found'')]"
    by code_simp
  have a': "net ?E' (requested w0) ''u'' headers = Some page_plain_email"
    by code_simp
  have b': "find_elem (soup_of page_plain_email) ''div'' (Some contact_class) = Some ?info'"
    by code_simp
  have e': "fst (scrape_business_page ?E' ''u'' headers w0) = Inr ?d'"
    by code_simp
  have g': "dict_get ?d' ''website'' = Inr ''http://acme.ie'' \<and> ''http://acme.ie'' \<noteq> ''Not found''"
    by (simp add: dict_get_def)
  have f': "email_link_element ?info' = Some (email_anchor ''mailto: info@acme.ie '', [])"
    by code_simp
  have "\<exists>d. fst (scrape_business_page ?E ''u'' headers w0) = Inr d
           \<and> dict_get d ''website'' = Inr ''Not found''"
    using C1_website_gated_on_email [OF a b, THEN conjunct1, THEN mp, OF d] .
  moreover have "email_link_element ?info' \<noteq> None"
    using C1_website_gated_on_email [OF a' b', THEN conjunct2, THEN spec, THEN spec, THEN mp,
        of ?d' "''http://acme.ie''"] e' g'
    by simp
  ultimately show ?thesis
    using a b c d e a' b' e' f' by simp
qed

text \<open>
  C8. When the fetch of the detail page fails, or the fetched page has no contact-info
  container, the extractor returns the record with link the input URL and both email and
  website \<^verbatim>\<open>Not found\<close>.
\<close>

theorem C8_not_found_record:
  assumes "net E (requested w) url hdrs = None
         \<or> (\<exists>root. net E (requested w) url hdrs = Some root
               \<and> find_elem (soup_of root) ''div'' (Some contact_class) = None)"
  shows "fst (scrape_business_page E url hdrs w) =
           Inr [(''link'', url), (''email'', ''Not found''), (''website'', ''Not found'')]"
  using assms scrape_fetch_failed scrape_no_container
  by (auto simp: initial_details_def)

theorem C8_not_found_record_witness:
  "net (serve []) (requested w0) ''u'' headers = None
   \<and> fst (scrape_business_page (serve []) ''u'' headers w0)
       = Inr [(''link'', ''u''), (''email'', ''Not found''), (''website'', ''Not found'')]
   \<and> net (serve [(''u'', page_without_contact)]) (requested w0) ''u'' headers
       = Some page_without_contact
   \<and> find_elem (soup_of page_without_contact) ''div'' (Some contact_class) = None
   \<and> fst (scrape_business_page (serve [(''u'', page_without_contact)]) ''u'' headers w0)
       = Inr [(''link'', ''u''), (''email'', ''Not found''), (''website'', ''Not found'')]"
proof -
  have a: "net (serve []) (requested w0) ''u'' headers = None"
    by code_simp
  have b: "net (serve [(''u'', page_without_contact)]) (requested w0) ''u'' headers
       = Some page_without_contact"
    by code_simp
  have c: "find_elem (soup_of page_without_contact) ''div'' (Some contact_class) = None"
    by code_simp
  have "fst (scrape_business_page (serve []) ''u'' headers w0)
       = Inr [(''link'', ''u''), (''email'', ''Not found''), (''website'', ''Not found'')]"
    using a by (intro C8_not_found_record) simp
  moreover have "fst (scrape_business_page (serve [(''u'', page_without_contact)]) ''u'' headers w0)
       = Inr [(''link'', ''u''), (''email'', ''Not found''), (''website'', ''Not found'')]"
    using b c by (intro C8_not_found_record) simp
  ultimately show ?thesis
    using a b c by simp
qed

text \<open>
  C2. The claim that missing structure never raises fails on the code: with an email
  anchor present, a website icon that has no following sibling makes the extractor raise
  TypeError, and a following sibling without href makes it raise KeyError.
\<close>

theorem C2_missing_website_anchor_raises:
  "fst (scrape_business_page (serve [(''u'', page_icon_last)]) ''u'' headers w0) = Inl TypeError
   \<and> fst (scrape_business_page (serve [(''u'', page_sibling_no_href)]) ''u'' headers w0)
       = Inl KeyError"
  by code_simp

text \<open>
  C7, as stated, fails: for the href \<^verbatim>\<open>mailto:a@b.com?cc=mailto:c@d.com\<close> the stored
  email has lost the second \<^verbatim>\<open>mailto:\<close> too, while removing the prefix alone keeps it.
\<close>

theorem C7_prefix_only_counterexample:
  "fst (scrape_business_page (serve [(''u'', page_two_mailto)]) ''u'' headers w0)
     = Inr [(''link'', ''u''), (''email'', ''a@b.com?cc=c@d.com''), (''website'', ''http://acme.ie'')]
   \<and> spec_email ''mailto:a@b.com?cc=mailto:c@d.com'' = ''a@b.com?cc=mailto:c@d.com''
   \<and> ''a@b.com?cc=c@d.com'' \<noteq> spec_email ''mailto:a@b.com?cc=mailto:c@d.com''"
  by code_simp

text \<open>
  C7, amended. When the extractor commits an email (the page has the contact block, the
  website lookup did not return early, an email anchor was found and the extractor
  returned), the stored value is the anchor's href with every occurrence of \<^verbatim>\<open>mailto:\<close>
  removed and the result trimmed. When the href is \<^verbatim>\<open>mailto:\<close> followed by a text in
  which \<^verbatim>\<open>mailto:\<close> does not occur, that is this text, trimmed.
\<close>

theorem C7_email_replace_all:
  assumes "net E (requested w) url hdrs = Some root"
      and "find_elem (soup_of root) ''div'' (Some contact_class) = Some info"
      and "website_link_element info = Some ws"
      and "email_link_element info = Some em"
      and "fst (scrape_business_page E url hdrs w) = Inr d"
  shows "\<exists>ev. tag_getitem em ''href'' = Inr ev
           \<and> dict_get d ''email'' = Inr (py_strip (py_replace ''mailto:'' [] ev))
           \<and> (\<forall>rest. ev = ''mailto:'' @ rest \<and> \<not> occurs ''mailto:'' rest
                 \<longrightarrow> dict_get d ''email'' = Inr (py_strip rest))"
proof -
  from scrape_with_container [OF assms(1,2)] assms(3,4,5)
  obtain ev where ev: "tag_getitem em ''href'' = Inr ev"
    and d: "dict_get d ''email'' = Inr (py_strip (py_replace ''mailto:'' [] ev))"
    by (auto simp: dict_get_def split: sum.splits)
  have "dict_get d ''email'' = Inr (py_strip rest)"
    if "ev = ''mailto:'' @ rest \<and> \<not> occurs ''mailto:'' rest" for rest
    using that d py_replace_prefix [of "''mailto:''" rest] by simp
  with ev d show ?thesis by blast
qed

theorem C7_email_replace_all_witness:
  "net (serve [(''u'', page_plain_email)]) (requested w0) ''u'' headers = Some page_plain_email
   \<and> find_elem (soup_of page_plain_email) ''div'' (Some contact_class)
       = Some (contact_div [homepage_anchor, email_anchor ''mailto: info@acme.ie ''], [])
   \<and> website_link_element (contact_div [homepage_anchor, email_anchor ''mailto: info@acme.ie ''], [])
       = Some (Some (homepage_anchor, [email_anchor ''mailto: info@acme.ie '']))
   \<and> email_link_element (contact_div [homepage_anchor, email_anchor ''mailto: info@acme.ie ''], [])
       = Some (email_anchor ''mailto: info@acme.ie '', [])
   \<and> fst (scrape_business_page (serve [(''u'', page_plain_email)]) ''u'' headers w0)
       = Inr [(''link'', ''u''), (''email'', ''info@acme.ie''), (''website'', ''http://acme.ie'')]
   \<and> tag_getitem (email_anchor ''mailto: info@acme.ie '', []) ''href'' = Inr ''mailto: info@acme.ie ''
   \<and> occurs ''mailto:'' '' info@acme.ie '' = False
   \<and> dict_get [(''link'', ''u''), (''email'', ''info@acme.ie''), (''website'', ''http://acme.ie'')]
        ''email'' = Inr (py_strip '' info@acme.ie '')
   \<and> py_strip '' info@acme.ie '' = ''info@acme.ie''"
proof -
  let ?E = "serve [(''u'', page_plain_email)]"
  let ?info = "(contact_div [homepage_anchor, email_anchor ''mailto: info@acme.ie ''], [])"
  let ?em = "(email_anchor ''mailto: info@acme.ie '', [])"
  let ?d = "[(''link'', ''u''), (''email'', ''info@acme.ie''), (''website'', ''http://acme.ie'')]"
  have a: "net ?E (requested w0) ''u'' headers = Some page_plain_email"
    by code_simp
  have b: "find_elem (soup_of page_plain_email) ''div'' (Some contact_class) = Some ?info"
    by code_simp
  have c: "website_link_element ?info
       = Some (Some (homepage_anchor, [email_anchor ''mailto: info@acme.ie '']))"
    by code_simp
  have d: "email_link_element ?info = Some ?em"
    by code_simp
  have e: "fst (scrape_business_page ?E ''u'' headers w0) = Inr ?d"
    by code_simp
  have g: "tag_getitem ?em ''href'' = Inr ''mailto: info@acme.ie ''"
    by code_simp
  have o: "occurs ''mailto:'' '' info@acme.ie '' = False"
    by code_simp
  have s: "py_strip '' info@acme.ie '' = ''info@acme.ie''"
    by code_simp
  from C7_email_replace_all [OF a b c d e] obtain ev
    where ev: "tag_getitem ?em ''href'' = Inr ev"
      and r: "\<forall>rest. ev = ''mailto:'' @ rest \<and> \<not> occurs ''mailto:'' rest
                 \<longrightarrow> dict_get ?d ''email'' = Inr (py_strip rest)"
    by blast
  from ev g have "ev = ''mailto:'' @ '' info@acme.ie ''"
    by simp
  with r o have "dict_get ?d ''email'' = Inr (py_strip '' info@acme.ie '')"
    by blast
  with a b c d e g o s show ?thesis
    by blast
qed

section \<open>Pipeline driver\<close>

subsection \<open>Phase 1\<close>

lemma set_add_fold_set: "set (foldl set_add s xs) = set s \<union> set xs"
  by (induction xs arbitrary: s) (auto simp: set_add_def)

lemma set_add_fold_distinct: "distinct s \<Longrightarrow> distinct (foldl set_add s xs)"
  by (induction xs arbitrary: s) (auto simp: set_add_def)

lemma collect_links_set:
  "fst (collect_links E ps s w) = Inr s' \<Longrightarrow> distinct s \<Longrightarrow>
   distinct s' \<and> set s' = set s \<union> items_tuple ` set (links_seen E ps w)"
proof (induction ps arbitrary: s w)
  case Nil
  then show ?case by simp
next
  case (Cons p ps)
  let ?w = "w\<lparr>requested := requested w @ [current_url p]\<rparr>"
  show ?case
  proof (cases "net E (requested w) (current_url p) headers")
    case None
    with Cons.prems show ?thesis
      by (simp add: get_html_content_def)
  next
    case (Some root)
    show ?thesis
    proof (cases "extract_links_from_search (soup_of root)")
      case (Inl e)
      with Some Cons.prems show ?thesis
        by (simp add: get_html_content_def)
    next
      case (Inr links)
      show ?thesis
      proof (cases "links = []")
        case True
        with Some Inr Cons.prems show ?thesis
          by (simp add: get_html_content_def)
      next
        case False
        let ?s = "foldl set_add s (map items_tuple links)"
        from False Some Inr Cons.prems(1)
        have r: "fst (collect_links E ps ?s ?w) = Inr s'"
          by (simp add: get_html_content_def)
        have d: "distinct ?s"
          using Cons.prems(2) by (rule set_add_fold_distinct)
        from Cons.IH [OF r d] False Some Inr show ?thesis
          by (auto simp: get_html_content_def set_add_fold_set)
      qed
    qed
  qed
qed

text \<open>
  C4. When Phase 1 returns its set, the set has no repeated entry, and for any two
  listing references read in Phase 1 the set holds exactly one entry for them when they
  agree on name and link, and two entries when they differ in either field.
\<close>

theorem C4_identical_references_deduplicated:
  assumes "fst (phase1 E max_pages w) = Inr s"
      and "[(''name'', n1), (''link'', l1)] \<in> set (links_seen E [1 ..< max_pages + 1] w)"
      and "[(''name'', n2), (''link'', l2)] \<in> set (links_seen E [1 ..< max_pages + 1] w)"
  shows "distinct s
       \<and> length (filter (\<lambda>t. t = items_tuple [(''name'', n1), (''link'', l1)]
                           \<or> t = items_tuple [(''name'', n2), (''link'', l2)]) s)
           = (if n1 = n2 \<and> l1 = l2 then 1 else 2)"
proof -
  let ?a = "items_tuple [(''name'', n1), (''link'', l1)]"
  let ?b = "items_tuple [(''name'', n2), (''link'', l2)]"
  from collect_links_set [of E "[1 ..< max_pages + 1]" "[]" w s] assms(1)
  have d: "distinct s"
    and s: "set s = items_tuple ` set (links_seen E [1 ..< max_pages + 1] w)"
    by (simp_all add: phase1_def)
  from s assms(2,3) have m: "?a \<in> set s" "?b \<in> set s"
    by auto
  have "length (filter (\<lambda>t. t = ?a \<or> t = ?b) s) = card ({t. t = ?a \<or> t = ?b} \<inter> set s)"
    using d by (rule distinct_length_filter)
  also have "{t. t = ?a \<or> t = ?b} \<inter> set s = {?a, ?b}"
    using m by auto
  also have "card {?a, ?b} = (if n1 = n2 \<and> l1 = l2 then 1 else 2)"
    by (auto simp: items_tuple_def)
  finally show ?thesis
    using d by simp
qed

theorem C4_identical_references_deduplicated_witness:
  "fst (phase1 (serve [(current_url 1, page_repeated_listing)]) 1 w0)
     = Inr [[(''name'', ''Plumbing Co''), (''link'', ''/biz/123'')],
            [(''name'', ''Plumbing Co''), (''link'', ''/biz/456'')]]
   \<and> links_seen (serve [(current_url 1, page_repeated_listing)]) [1 ..< 1 + 1] w0
     = [[(''name'', ''Plumbing Co''), (''link'', ''/biz/123'')],
        [(''name'', ''Plumbing Co''), (''link'', ''/biz/123'')],
        [(''name'', ''Plumbing Co''), (''link'', ''/biz/456'')]]
   \<and> length (filter (\<lambda>t. t = items_tuple [(''name'', ''Plumbing Co''), (''link'', ''/biz/123'')]
                         \<or> t = items_tuple [(''name'', ''Plumbing Co''), (''link'', ''/biz/123'')])
        [[(''name'', ''Plumbing Co''), (''link'', ''/biz/123'')],
         [(''name'', ''Plumbing Co''), (''link'', ''/biz/456'')]]) = 1
   \<and> length (filter (\<lambda>t. t = items_tuple [(''name'', ''Plumbing Co''), (''link'', ''/biz/123'')]
                         \<or> t = items_tuple [(''name'', ''Plumbing Co''), (''link'', ''/biz/456'')])
        [[(''name'', ''Plumbing Co''), (''link'', ''/biz/123'')],
         [(''name'', ''Plumbing Co''), (''link'', ''/biz/456'')]]) = 2"
proof -
  let ?E = "serve [(current_url 1, page_repeated_listing)]"
  let ?a = "[(''name'', ''Plumbing Co''), (''link'', ''/biz/123'')]"
  let ?b = "[(''name'', ''Plumbing Co''), (''link'', ''/biz/456'')]"
  have h: "fst (phase1 ?E 1 w0) = Inr [?a, ?b]"
    by code_simp
  have l: "links_seen ?E [1 ..< 1 + 1] w0 = [?a, ?a, ?b]"
    by code_simp
  have ma: "?a \<in> set (links_seen ?E [1 ..< 1 + 1] w0)"
    unfolding l by simp
  have mb: "?b \<in> set (links_seen ?E [1 ..< 1 + 1] w0)"
    unfolding l by simp
  have "length (filter (\<lambda>t. t = items_tuple ?a \<or> t = items_tuple ?a) [?a, ?b]) = 1"
    using C4_identical_references_deduplicated [OF h ma ma] by simp
  moreover have "length (filter (\<lambda>t. t = items_tuple ?a \<or> t = items_tuple ?b) [?a, ?b]) = 2"
    using C4_identical_references_deduplicated [OF h ma mb] by simp
  ultimately show ?thesis
    using h l by blast
qed

text \<open>
  C5. In the loop of Phase 1, a page that is fetched and has no listing container ends
  the loop without an exception: the set is returned as it is and the only new request
  is that page's. A failed fetch ends the loop in the same way. Page 1 is requested at
  the bare base URL. With ceiling 3, a first page with listings and a second page without
  a container, the requests made are those of pages 1 and 2 and no other.
\<close>

theorem C5_empty_page_halts_pagination:
  "(\<forall>root. net E (requested w) (current_url page_num) headers = Some root
        \<and> find_all (soup_of root) ''div'' (Some ''listing_container'') = []
      \<longrightarrow> collect_links E (page_num # rest) s w
            = (Inr s, w\<lparr>requested := requested w @ [current_url page_num]\<rparr>))
   \<and> (net E (requested w) (current_url page_num) headers = None
      \<longrightarrow> collect_links E (page_num # rest) s w
            = (Inr s, w\<lparr>requested := requested w @ [current_url page_num]\<rparr>))
   \<and> current_url 1 = base_url_pattern
   \<and> (\<forall>root1 links root2.
         net E (requested w) (current_url 1) headers = Some root1
         \<and> extract_links_from_search (soup_of root1) = Inr links \<and> links \<noteq> []
         \<and> net E (requested w @ [current_url 1]) (current_url 2) headers = Some root2
         \<and> find_all (soup_of root2) ''div'' (Some ''listing_container'') = []
      \<longrightarrow> phase1 E 3 w
            = (Inr (foldl set_add [] (map items_tuple links)),
               w\<lparr>requested := requested w @ [current_url 1, current_url 2]\<rparr>))"
proof (intro conjI allI impI)
  fix root
  assume "net E (requested w) (current_url page_num) headers = Some root
        \<and> find_all (soup_of root) ''div'' (Some ''listing_container'') = []"
  then show "collect_links E (page_num # rest) s w
            = (Inr s, w\<lparr>requested := requested w @ [current_url page_num]\<rparr>)"
    by (simp add: get_html_content_def extract_links_from_search_def)
next
  assume "net E (requested w) (current_url page_num) headers = None"
  then show "collect_links E (page_num # rest) s w
            = (Inr s, w\<lparr>requested := requested w @ [current_url page_num]\<rparr>)"
    by (simp add: get_html_content_def)
next
  show "current_url 1 = base_url_pattern"
    by (simp add: current_url_def)
next
  fix root1 links root2
  assume h: "net E (requested w) (current_url 1) headers = Some root1
         \<and> extract_links_from_search (soup_of root1) = Inr links \<and> links \<noteq> []
         \<and> net E (requested w @ [current_url 1]) (current_url 2) headers = Some root2
         \<and> find_all (soup_of root2) ''div'' (Some ''listing_container'') = []"
  have u: "[1 ..< 3 + 1] = [1, 2, 3::nat]"
    by (simp add: upt_rec)
  from h show "phase1 E 3 w
            = (Inr (foldl set_add [] (map items_tuple links)),
               w\<lparr>requested := requested w @ [current_url 1, current_url 2]\<rparr>)"
    unfolding phase1_def u
    by (simp add: get_html_content_def extract_links_from_search_def)
qed

theorem C5_empty_page_halts_pagination_witness:
  "net three_pages (requested w0) (current_url 1) headers = Some page_one_listing
   \<and> extract_links_from_search (soup_of page_one_listing)
       = Inr [[(''name'', ''Plumbing Co''), (''link'', ''/biz/123'')]]
   \<and> net three_pages (requested w0 @ [current_url 1]) (current_url 2) headers = Some page_no_listing
   \<and> find_all (soup_of page_no_listing) ''div'' (Some ''listing_container'') = []
   \<and> net three_pages (requested w0 @ [current_url 1, current_url 2]) (current_url 3) headers
       = Some page_repeated_listing
   \<and> phase1 three_pages 3 w0
       = (Inr [[(''name'', ''Plumbing Co''), (''link'', ''/biz/123'')]],
          w0\<lparr>requested := [''https://www.goldenpages.ie/q/business/advanced/what/plumbers/'',
                ''https://www.goldenpages.ie/q/business/advanced/what/plumbers/2/'']\<rparr>)
   \<and> net (serve []) (requested w0) (current_url 1) headers = None
   \<and> collect_links (serve []) [1, 2, 3] [] w0
       = (Inr [], w0\<lparr>requested := [''https://www.goldenpages.ie/q/business/advanced/what/plumbers/'']\<rparr>)"
proof -
  let ?L = "[[(''name'', ''Plumbing Co''), (''link'', ''/biz/123'')]]"
  have a: "net three_pages (requested w0) (current_url 1) headers = Some page_one_listing"
    by code_simp
  have b: "extract_links_from_search (soup_of page_one_listing) = Inr ?L"
    by code_simp
  have c: "net three_pages (requested w0 @ [current_url 1]) (current_url 2) headers
       = Some page_no_listing"
    by code_simp
  have d: "find_all (soup_of page_no_listing) ''div'' (Some ''listing_container'') = []"
    by code_simp
  have e: "net three_pages (requested w0 @ [current_url 1, current_url 2]) (current_url 3) headers
       = Some page_repeated_listing"
    by code_simp
  have f: "net (serve []) (requested w0) (current_url 1) headers = None"
    by code_simp
  have u: "requested w0 @ [current_url 1, current_url 2]
      = [''https://www.goldenpages.ie/q/business/advanced/what/plumbers/'',
         ''https://www.goldenpages.ie/q/business/advanced/what/plumbers/2/'']"
    "requested w0 @ [current_url 1]
      = [''https://www.goldenpages.ie/q/business/advanced/what/plumbers/'']"
    by code_simp+
  have s: "foldl set_add [] (map items_tuple ?L) = ?L"
    by code_simp
  have ne: "?L \<noteq> []"
    by simp
  have "phase1 three_pages 3 w0
       = (Inr (foldl set_add [] (map items_tuple ?L)),
          w0\<lparr>requested := requested w0 @ [current_url 1, current_url 2]\<rparr>)"
    using C5_empty_page_halts_pagination [of three_pages w0 1 "[2, 3]" "[]"] a b c d ne
    by blast
  then have p: "phase1 three_pages 3 w0
       = (Inr ?L, w0\<lparr>requested := [''https://www.goldenpages.ie/q/business/advanced/what/plumbers/'',
                ''https://www.goldenpages.ie/q/business/advanced/what/plumbers/2/'']\<rparr>)"
    unfolding u s .
  have "collect_links (serve []) [1, 2, 3] [] w0
       = (Inr [], w0\<lparr>requested := requested w0 @ [current_url 1]\<rparr>)"
    using C5_empty_page_halts_pagination [of "serve []" w0 1 "[2, 3]" "[]"] f
    by blast
  then have q: "collect_links (serve []) [1, 2, 3] [] w0
       = (Inr [], w0\<lparr>requested := [''https://www.goldenpages.ie/q/business/advanced/what/plumbers/'']\<rparr>)"
    unfolding u .
  from a b c d e f p q show ?thesis
    by blast
qed

subsection \<open>Phase 2\<close>

lemma final_data_details:
  "final_data nm [(''link'', u), (''email'', em), (''website'', ws)] =
     [(''name'', nm), (''link'', u), (''email'', em), (''website'', ws)]"
  by (simp add: final_data_def)

lemma scrape_all_filter:
  "fst (scrape_all E bs acc w) = Inr out \<Longrightarrow> \<forall>r\<in>set acc. has_website r \<Longrightarrow>
   \<forall>r\<in>set out. has_website r"
proof (induction bs arbitrary: acc w)
  case Nil
  then show ?case by simp
next
  case (Cons b bs)
  from Cons.prems(1) obtain nm where nm: "dict_get b ''name'' = Inr nm"
    by (cases "dict_get b ''name''") auto
  from Cons.prems(1) nm obtain lnk where lnk: "dict_get b ''link'' = Inr lnk"
    by (cases "dict_get b ''link''") auto
  let ?u = "''https://www.goldenpages.ie'' @ lnk"
  obtain r w' where sp: "scrape_business_page E ?u headers w = (r, w')"
    by (cases "scrape_business_page E ?u headers w")
  from Cons.prems(1) nm lnk sp obtain details where r: "r = Inr details"
    by (cases r) auto
  from scrape_result_shape [of E ?u headers w details] sp r
  obtain em ws where details: "details = [(''link'', ?u), (''email'', em), (''website'', ws)]"
    by auto
  have g: "dict_get details ''website'' = Inr ws"
    by (simp add: details dict_get_def)
  show ?case
  proof (cases "ws = ''Not found''")
    case True
    with Cons.prems(1) nm lnk sp r g have "fst (scrape_all E bs acc w') = Inr out"
      by simp
    from Cons.IH [OF this Cons.prems(2)] show ?thesis .
  next
    case False
    with Cons.prems(1) nm lnk sp r g
    have a: "fst (scrape_all E bs (acc @ [final_data nm details]) w') = Inr out"
      by simp
    have "has_website (final_data nm details)"
      using False by (simp add: details final_data_details has_website_def)
    with Cons.prems(2) have "\<forall>r\<in>set (acc @ [final_data nm details]). has_website r"
      by simp
    from Cons.IH [OF a this] show ?thesis .
  qed
qed

text \<open>
  C3. When the driver runs to its end, every record of the output collection has a
  website entry, and it is not \<^verbatim>\<open>Not found\<close>.
\<close>

theorem C3_output_has_website:
  assumes "fst (main E w) = Inr all_scraped_data"
  shows "\<forall>r \<in> set all_scraped_data.
           \<exists>ws. dict_get r ''website'' = Inr ws \<and> ws \<noteq> ''Not found''"
proof -
  have "\<forall>r \<in> set all_scraped_data. has_website r"
  proof (cases "fst (phase1 E MAX_PAGES w)")
    case (Inl e)
    with assms show ?thesis
      by (simp add: main_def split: prod.splits)
  next
    case (Inr s)
    let ?bs = "map dict_of_tuple (set_order E s)"
    show ?thesis
    proof (cases "?bs = []")
      case True
      with Inr assms show ?thesis
        by (simp add: main_def Let_def split: prod.splits)
    next
      case False
      with Inr assms
      have "fst (scrape_all E ?bs [] (snd (phase1 E MAX_PAGES w))) = Inr all_scraped_data"
        by (auto simp: main_def Let_def split: prod.splits sum.splits)
      from scrape_all_filter [OF this] show ?thesis by simp
    qed
  qed
  then show ?thesis
    by (auto simp: has_website_def dict_get_def split: option.splits)
qed

theorem C3_output_has_website_witness:
  "fst (main small_site w0)
     = Inr [[(''name'', ''Plumbing Co''), (''link'', ''https://www.goldenpages.ie/biz/123''),
             (''email'', ''a@b.com?cc=c@d.com''), (''website'', ''http://acme.ie'')]]
   \<and> dict_get [(''name'', ''Plumbing Co''), (''link'', ''https://www.goldenpages.ie/biz/123''),
             (''email'', ''a@b.com?cc=c@d.com''), (''website'', ''http://acme.ie'')] ''website''
       = Inr ''http://acme.ie''"
proof -
  have h: "fst (main small_site w0)
     = Inr [[(''name'', ''Plumbing Co''), (''link'', ''https://www.goldenpages.ie/biz/123''),
             (''email'', ''a@b.com?cc=c@d.com''), (''website'', ''http://acme.ie'')]]"
    by code_simp
  from C3_output_has_website [OF h] h show ?thesis
    by (simp add: dict_get_def)
qed

subsection \<open>CSV writer\<close>

text \<open>
  C10. Called with an empty data list, \<open>save_to_csv\<close> leaves the world as it is: no
  file is opened and no file content changes, whatever the file name, mode and header
  flag.
\<close>

theorem C10_empty_data_no_file:
  "save_to_csv E [] filename mode header w = w
   \<and> opened (save_to_csv E [] filename mode header w) = opened w
   \<and> files (save_to_csv E [] filename mode header w) = files w"
  by (simp add: save_to_csv_def)

theorem C10_empty_data_no_file_witness:
  "save_to_csv (serve []) [] ''out.csv'' ''w'' True w_old_file = w_old_file
   \<and> opened (save_to_csv (serve []) [] ''out.csv'' ''w'' True w_old_file) = []
   \<and> files (save_to_csv (serve []) [] ''out.csv'' ''w'' True w_old_file) ''out.csv''
       = Some ''name,link''
   \<and> opened (save_to_csv (serve []) [[(''name'', ''Acme'')]] ''out.csv'' ''w'' True w_old_file)
       = [(''out.csv'', ''w'')]
   \<and> files (save_to_csv (serve []) [[(''name'', ''Acme'')]] ''out.csv'' ''w'' True w_old_file) ''out.csv''
       = Some ''nameAcme''"
proof -
  have o: "opened w_old_file = []"
    and f: "files w_old_file ''out.csv'' = Some ''name,link''"
    by (simp_all add: w_old_file_def)
  have n: "opened (save_to_csv (serve []) [[(''name'', ''Acme'')]] ''out.csv'' ''w'' True w_old_file)
       = [(''out.csv'', ''w'')]"
    "files (save_to_csv (serve []) [[(''name'', ''Acme'')]] ''out.csv'' ''w'' True w_old_file) ''out.csv''
       = Some ''nameAcme''"
    by (simp_all add: save_to_csv_def serve_def w_old_file_def row_fits_def row_values_def)
  from C10_empty_data_no_file [of "serve []" "''out.csv''" "''w''" True w_old_file] o f n
  show ?thesis
    by simp
qed

end
